theory Spec2Isabelle
  imports Complex_Main "HOL-Library.Char_ord" "HOL-Library.List_Lexorder"
begin

section \<open>Tramontina invoice reconciliation (gem\_updated.py)\<close>

text \<open>
  A shallow embedding of the logic functions and of the reconciliation block of
  \<^verbatim>\<open>gem_updated.py\<close>.

  Conventions of the model:
  \<^item> Python floats are modelled by \<^typ>\<open>real\<close>: rounding, infinities and NaN values of
    IEEE arithmetic are not represented. A value parsed from text is the exact decimal.
  \<^item> Python strings are modelled by \<^typ>\<open>string\<close>; the helpers below are those of
    Python on ASCII text (whitespace, digits, letter case).
  \<^item> Every exception the code can raise on well-typed input is a value of
    \<open>py_error\<close>, returned as \<open>Inl\<close>.
\<close>

datatype py_error = IndexError | KeyError | ZeroDivisionError | ValueError

subsection \<open>String helpers\<close>

text \<open>The characters \<^verbatim>\<open>str.strip()\<close> and the regex class \<^verbatim>\<open>\s\<close> treat as whitespace
  (ASCII range): 0x09--0x0D, 0x1C--0x1F and the blank.\<close>

definition is_space :: "char \<Rightarrow> bool" where
  "is_space c = (let n = (of_char c :: nat) in (9 \<le> n \<and> n \<le> 13) \<or> (28 \<le> n \<and> n \<le> 32))"

definition is_digit :: "char \<Rightarrow> bool" where
  "is_digit c = (let n = (of_char c :: nat) in 48 \<le> n \<and> n \<le> 57)"

definition digit_val :: "char \<Rightarrow> nat" where
  "digit_val c = of_char c - 48"

text \<open>\<^verbatim>\<open>c.lower()\<close> on one ASCII character.\<close>

definition lower_char :: "char \<Rightarrow> char" where
  "lower_char c =
     (case map_of (zip ''ABCDEFGHIJKLMNOPQRSTUVWXYZ'' ''abcdefghijklmnopqrstuvwxyz'') c of
        Some d \<Rightarrow> d
      | None \<Rightarrow> c)"

definition lower :: "string \<Rightarrow> string" where
  "lower s = map lower_char s"

text \<open>\<^verbatim>\<open>s.strip()\<close>: leading and trailing whitespace removed.\<close>

definition strip :: "string \<Rightarrow> string" where
  "strip s = rev (dropWhile is_space (rev (dropWhile is_space s)))"

fun starts_with :: "string \<Rightarrow> string \<Rightarrow> bool" where
  "starts_with [] s = True"
| "starts_with (p # ps) [] = False"
| "starts_with (p # ps) (c # cs) = (p = c \<and> starts_with ps cs)"

text \<open>\<^verbatim>\<open>sub in s\<close> for strings: \<open>sub\<close> occurs as a contiguous substring of \<open>s\<close>.\<close>

fun contains_str :: "string \<Rightarrow> string \<Rightarrow> bool" where
  "contains_str sub [] = (sub = [])"
| "contains_str sub (c # cs) = (starts_with sub (c # cs) \<or> contains_str sub cs)"

text \<open>\<^verbatim>\<open>s.replace('TR-', '')\<close>: every occurrence of the literal prefix is removed,
  scanning from the left.\<close>

fun remove_TR :: "string \<Rightarrow> string" where
  "remove_TR [] = []"
| "remove_TR (c # cs) =
     (if starts_with ''TR-'' (c # cs) then remove_TR (drop 2 cs) else c # remove_TR cs)"

text \<open>\<^verbatim>\<open>re.sub(r'[^0-9.]', '', s)\<close>: only digits and decimal points survive.\<close>

definition keep_num :: "string \<Rightarrow> string" where
  "keep_num s = filter (\<lambda>c. is_digit c \<or> c = CHR ''.'') s"

text \<open>The value of a string of decimal digits (most significant first).\<close>

definition digits_val :: "string \<Rightarrow> nat" where
  "digits_val ds = foldl (\<lambda>acc c. 10 * acc + digit_val c) 0 ds"

text \<open>
  \<^verbatim>\<open>float(cleaned)\<close> where \<open>cleaned\<close> consists of digits and decimal points only (the
  only strings the code passes to \<^verbatim>\<open>float\<close>): digits, at most one point, and at least
  one digit; anything else raises \<^verbatim>\<open>ValueError\<close>.
\<close>

definition py_float :: "string \<Rightarrow> py_error + real" where
  "py_float s =
     (let ip = takeWhile is_digit s; rest = dropWhile is_digit s in
      case rest of
        [] \<Rightarrow> if ip = [] then Inl ValueError else Inr (real (digits_val ip))
      | c # fp \<Rightarrow>
          if c = CHR ''.'' \<and> list_all is_digit fp \<and> (ip \<noteq> [] \<or> fp \<noteq> [])
          then Inr (real (digits_val ip) + real (digits_val fp) / 10 ^ length fp)
          else Inl ValueError)"

subsection \<open>Numeric coercion\<close>

text \<open>A field of the document service's result: an optional structured number, an
  optional structured currency amount, and the raw text.\<close>

record document_field =
  value_number :: "real option"
  value_currency :: "real option"
  content :: "string option"

text \<open>\<^verbatim>\<open>str(content)\<close>: the text of a missing content is \<^verbatim>\<open>'None'\<close>.\<close>

definition str_content :: "string option \<Rightarrow> string" where
  "str_content c = (case c of None \<Rightarrow> ''None'' | Some s \<Rightarrow> s)"

text \<open>
  \<^verbatim>\<open>
  def clean_num_strict(field):
      if not field: return 0.0
      if hasattr(field, 'value_number') and field.value_number is not None:
          return abs(float(field.value_number))
      if hasattr(field, 'value_currency') and field.value_currency:
          return abs(float(field.value_currency.amount))
      content = getattr(field, 'content', '0')
      cleaned = re.sub(r'[^0-9.]', '', str(content))
      try: return float(cleaned) if cleaned else 0.0
      except: return 0.0
  \<close>
\<close>

definition clean_num_strict :: "document_field option \<Rightarrow> real" where
  "clean_num_strict field =
     (case field of
        None \<Rightarrow> 0
      | Some f \<Rightarrow>
          (case value_number f of
             Some n \<Rightarrow> \<bar>n\<bar>
           | None \<Rightarrow>
               (case value_currency f of
                  Some a \<Rightarrow> \<bar>a\<bar>
                | None \<Rightarrow>
                    (let cleaned = keep_num (str_content (content f)) in
                     if cleaned = [] then 0
                     else (case py_float cleaned of Inr v \<Rightarrow> v | Inl e \<Rightarrow> 0)))))"

text \<open>A spreadsheet cell as pandas holds it: missing (NaN), or a value given by its
  \<^verbatim>\<open>str()\<close> text.\<close>

datatype cell = Null | Val string

text \<open>
  \<^verbatim>\<open>
  def clean_currency(value):
      if pd.isna(value): return 0.0
      cleaned = re.sub(r'[^0-9.]', '', str(value))
      try: return float(cleaned)
      except: return 0.0
  \<close>
\<close>

definition clean_currency :: "cell \<Rightarrow> real" where
  "clean_currency v =
     (case v of
        Null \<Rightarrow> 0
      | Val s \<Rightarrow> (case py_float (keep_num s) of Inr x \<Rightarrow> x | Inl e \<Rightarrow> 0))"

subsection \<open>Gross quantity from the recognised text\<close>

text \<open>
  The tail \<^verbatim>\<open>\s*[:\-]?\s*(\d+)\<close> of both patterns, matched at the start of \<open>s\<close>; the
  result is group 1. The three character classes are disjoint, so the greedy match is the
  only one.
\<close>

definition match_tail :: "string \<Rightarrow> string option" where
  "match_tail s =
     (let r1 = dropWhile is_space s;
          r2 = (case r1 of
                  [] \<Rightarrow> r1
                | c # t \<Rightarrow> if c = CHR '':'' \<or> c = CHR ''-'' then dropWhile is_space t else r1);
          ds = takeWhile is_digit r2
      in if ds = [] then None else Some ds)"

text \<open>\<^verbatim>\<open>w1\s+w2\s*[:\-]?\s*(\d+)\<close> with \<^verbatim>\<open>re.IGNORECASE\<close>, matched at the start of \<open>s\<close>;
  \<open>w1\<close> and \<open>w2\<close> are given in lower case.\<close>

definition match_label :: "string \<Rightarrow> string \<Rightarrow> string \<Rightarrow> string option" where
  "match_label w1 w2 s =
     (if starts_with w1 (lower s) then
        (let r1 = drop (length w1) s; r2 = dropWhile is_space r1 in
         if takeWhile is_space r1 = [] then None
         else if starts_with w2 (lower r2) then match_tail (drop (length w2) r2)
         else None)
      else None)"

text \<open>\<^verbatim>\<open>re.search\<close>: the match at the leftmost position where one exists.\<close>

fun re_search :: "(string \<Rightarrow> string option) \<Rightarrow> string \<Rightarrow> string option" where
  "re_search m [] = m []"
| "re_search m (c # cs) = (case m (c # cs) of Some g \<Rightarrow> Some g | None \<Rightarrow> re_search m cs)"

text \<open>
  \<^verbatim>\<open>
  def extract_gross_total_qty(full_content):
      if not full_content: return 0.0
      match = re.search(r"Gross\s+Total\s*[:\-]?\s*(\d+)", full_content, re.IGNORECASE)
      if match: return float(match.group(1))
      match_alt = re.search(r"Total\s+Qty\s*[:\-]?\s*(\d+)", full_content, re.IGNORECASE)
      return float(match_alt.group(1)) if match_alt else 0.0
  \<close>
\<close>

definition extract_gross_total_qty :: "string \<Rightarrow> real" where
  "extract_gross_total_qty full_content =
     (if full_content = [] then 0
      else (case re_search (match_label ''gross'' ''total'') full_content of
              Some g \<Rightarrow> real (digits_val g)
            | None \<Rightarrow>
                (case re_search (match_label ''total'' ''qty'') full_content of
                   Some g \<Rightarrow> real (digits_val g)
                 | None \<Rightarrow> 0)))"

subsection \<open>Spreadsheet normalizer\<close>

record excel_row =
  Material_Code :: string
  Qty_EXCEL :: real
  Tax_EXCEL :: real
  Total_EXCEL :: real

text \<open>\<^verbatim>\<open>astype(str)\<close> on a cell: a missing cell reads \<^verbatim>\<open>'nan'\<close>.\<close>

definition astype_str :: "cell \<Rightarrow> string" where
  "astype_str v = (case v of Null \<Rightarrow> ''nan'' | Val s \<Rightarrow> s)"

text \<open>\<^verbatim>\<open>r.astype(str).str.contains('SKU').any()\<close> for one row of the raw frame.\<close>

definition row_has_SKU :: "cell list \<Rightarrow> bool" where
  "row_has_SKU r = list_ex (\<lambda>c. contains_str ''SKU'' (astype_str c)) r"

text \<open>
  \<^verbatim>\<open>raw_df[raw_df.apply(..., axis=1)].index[0]\<close>: the index of the first row with the
  marker; \<^verbatim>\<open>.index[0]\<close> on the empty selection raises \<^verbatim>\<open>IndexError\<close>.
\<close>

definition header_row_idx :: "cell list list \<Rightarrow> py_error + nat" where
  "header_row_idx raw_df =
     (let i = length (takeWhile (\<lambda>r. \<not> row_has_SKU r) raw_df) in
      if i < length raw_df then Inr i else Inl IndexError)"

text \<open>The number of columns of the frame read from a sheet given as a list of rows.\<close>

definition frame_width :: "cell list list \<Rightarrow> nat" where
  "frame_width raw_df = foldr (\<lambda>r w. max (length r) w) raw_df 0"

text \<open>\<^verbatim>\<open>df.iloc[:, j]\<close>: column \<open>j\<close> of the rows; out of range raises \<^verbatim>\<open>IndexError\<close>. A
  row shorter than the frame is padded with missing cells.\<close>

definition iloc :: "nat \<Rightarrow> nat \<Rightarrow> cell list list \<Rightarrow> py_error + cell list" where
  "iloc width j df =
     (if j < width then Inr (map (\<lambda>r. if j < length r then r ! j else Null) df)
      else Inl IndexError)"

text \<open>Column 0 cleaned: \<^verbatim>\<open>.astype(str).str.replace('TR-', '', regex=False).str.strip()\<close>.\<close>

definition clean_code :: "cell \<Rightarrow> string" where
  "clean_code v = strip (remove_TR (astype_str v))"

text \<open>
  \<^verbatim>\<open>
  def load_and_clean_excel(file):
      raw_df = pd.read_excel(file, header=None)
      header_row_idx = raw_df[raw_df.apply(lambda r: r.astype(str).str.contains('SKU').any(), axis=1)].index[0]
      df = pd.read_excel(file, header=header_row_idx)
      ...
      cleaned_items['Material Code'] = df.iloc[:, 0].astype(str).str.replace('TR-', '', regex=False).str.strip()
      cleaned_items['Qty_EXCEL'] = df.iloc[:, 4].apply(clean_currency)
      cleaned_items['Tax_EXCEL'] = df.iloc[:, 10].apply(clean_currency)
      cleaned_items['Total_EXCEL'] = df.iloc[:, 11].apply(clean_currency)
      return cleaned_items[cleaned_items['Material Code'] != 'nan'].reset_index(drop=True)
  \<close>
  The argument is the sheet as \<^verbatim>\<open>pd.read_excel(file, header=None)\<close> returns it; the frame
  re-read with the header at row \<open>h\<close> holds the rows after \<open>h\<close>.
\<close>

definition clean_rows :: "nat \<Rightarrow> cell list list \<Rightarrow> py_error + excel_row list" where
  "clean_rows width df =
     (case iloc width 0 df of Inl e \<Rightarrow> Inl e | Inr c0 \<Rightarrow>
     (case iloc width 4 df of Inl e \<Rightarrow> Inl e | Inr c4 \<Rightarrow>
     (case iloc width 10 df of Inl e \<Rightarrow> Inl e | Inr c10 \<Rightarrow>
     (case iloc width 11 df of Inl e \<Rightarrow> Inl e | Inr c11 \<Rightarrow>
        Inr (filter (\<lambda>r. Material_Code r \<noteq> ''nan'')
              (map (\<lambda>(a, b, c, d).
                      \<lparr>Material_Code = clean_code a, Qty_EXCEL = clean_currency b,
                       Tax_EXCEL = clean_currency c, Total_EXCEL = clean_currency d\<rparr>)
                 (zip c0 (zip c4 (zip c10 c11)))))))))"

definition load_and_clean_excel :: "cell list list \<Rightarrow> py_error + excel_row list" where
  "load_and_clean_excel raw_df =
     (case header_row_idx raw_df of
        Inl e \<Rightarrow> Inl e
      | Inr h \<Rightarrow> clean_rows (frame_width raw_df) (drop (Suc h) raw_df))"

subsection \<open>Document extraction with the cross-reference filter\<close>

text \<open>An element of the array \<^verbatim>\<open>"Items"\<close>, given by its \<^verbatim>\<open>value_object\<close>: the results of
  \<^verbatim>\<open>val.get("ProductCode")\<close> and \<^verbatim>\<open>val.get("Amount")\<close>.\<close>

record item_object =
  ProductCode :: "document_field option"
  Amount :: "document_field option"

text \<open>One recognised document: \<open>Items\<close> is the value array of the field \<^verbatim>\<open>"Items"\<close>
  (\<open>None\<close> when the field or its array is absent).\<close>

record analyzed_document =
  Items :: "item_object list option"
  TotalTax :: "document_field option"
  InvoiceTotal :: "document_field option"

record analyze_result =
  documents :: "analyzed_document list"
  result_content :: string

record pdf_summary =
  Gross_Total_Qty :: real
  Total_Tax_Footer :: real
  Grand_Total_Footer :: real

text \<open>
  The body of the loop over \<^verbatim>\<open>items.value_array\<close>: \<open>None\<close> is a \<^verbatim>\<open>continue\<close>,
  \<open>Some (m_code, amt)\<close> is the row appended to \<^verbatim>\<open>all_line_items\<close>.
  \<^verbatim>\<open>
  p_code_field = val.get("ProductCode")
  if not p_code_field or not p_code_field.content: continue
  m_code = p_code_field.content.strip()
  amt = clean_num_strict(val.get("Amount"))
  if m_code not in excel_material_codes.values: continue
  if "total" in m_code.lower() or amt == 0: continue
  all_line_items.append({"Material Code": m_code, "Total_PDF": amt})
  \<close>
\<close>

definition line_item :: "string list \<Rightarrow> item_object \<Rightarrow> (string \<times> real) option" where
  "line_item excel_material_codes val =
     (case ProductCode val of
        None \<Rightarrow> None
      | Some p_code_field \<Rightarrow>
          (case content p_code_field of
             None \<Rightarrow> None
           | Some c \<Rightarrow>
               if c = [] then None
               else (let m_code = strip c; amt = clean_num_strict (Amount val) in
                     if m_code \<notin> set excel_material_codes then None
                     else if contains_str ''total'' (lower m_code) \<or> amt = 0 then None
                     else Some (m_code, amt))))"

text \<open>\<^verbatim>\<open>drop_duplicates()\<close>: the first of equal rows is kept, in order.\<close>

fun drop_duplicates :: "'a list \<Rightarrow> 'a list" where
  "drop_duplicates [] = []"
| "drop_duplicates (x # xs) = x # drop_duplicates (filter (\<lambda>y. y \<noteq> x) xs)"

definition all_line_items :: "string list \<Rightarrow> analyzed_document list \<Rightarrow> (string \<times> real) list" where
  "all_line_items excel_material_codes docs =
     concat (map (\<lambda>invoice. case Items invoice of
                               None \<Rightarrow> []
                             | Some value_array \<Rightarrow>
                                 List.map_filter (line_item excel_material_codes) value_array)
               docs)"

text \<open>The footers are overwritten for each document, so the last document wins; with no
  document they keep their initial 0.0.\<close>

definition extract_pdf_data :: "analyze_result \<Rightarrow> string list \<Rightarrow> (string \<times> real) list \<times> pdf_summary" where
  "extract_pdf_data result excel_material_codes =
     (let docs = documents result in
      (drop_duplicates (all_line_items excel_material_codes docs),
       \<lparr>Gross_Total_Qty = extract_gross_total_qty (result_content result),
        Total_Tax_Footer = (if docs = [] then 0 else clean_num_strict (TotalTax (last docs))),
        Grand_Total_Footer = (if docs = [] then 0 else clean_num_strict (InvoiceTotal (last docs)))\<rparr>))"

subsection \<open>Reconciliation\<close>

datatype status = Match | Mismatch

text \<open>
  The rows of the outer join for one key: each left row with the key paired with each
  right row with the key; a key on one side only keeps that side's rows, the other
  amount missing.
\<close>

definition merge_key_rows ::
  "(string \<times> real) list \<Rightarrow> (string \<times> real) list \<Rightarrow> string \<Rightarrow> (string \<times> real option \<times> real option) list" where
  "merge_key_rows left right k =
     (let ls = filter (\<lambda>p. fst p = k) left; rs = filter (\<lambda>p. fst p = k) right in
      if rs = [] then map (\<lambda>l. (k, Some (snd l), None)) ls
      else if ls = [] then map (\<lambda>r. (k, None, Some (snd r))) rs
      else concat (map (\<lambda>l. map (\<lambda>r. (k, Some (snd l), Some (snd r))) rs) ls))"

text \<open>
  \<^verbatim>\<open>pd.merge(pdf_df, excel_df[['Material Code', 'Total_EXCEL']], on="Material Code", how="outer")\<close>.
  The left frame is \<^verbatim>\<open>pd.DataFrame(all_line_items)\<close>: built from no row it has no column
  \<^verbatim>\<open>'Material Code'\<close>, and the merge raises \<^verbatim>\<open>KeyError\<close>. The keys of an outer join
  come out sorted.
\<close>

definition merge_outer ::
  "(string \<times> real) list \<Rightarrow> (string \<times> real) list \<Rightarrow> py_error + (string \<times> real option \<times> real option) list" where
  "merge_outer left right =
     (if left = [] then Inl KeyError
      else Inr (concat (map (merge_key_rows left right)
                          (sort (remdups (map fst left @ map fst right))))))"

text \<open>\<^verbatim>\<open>.fillna(0)\<close> on one amount.\<close>

definition fillna0 :: "real option \<Rightarrow> real" where
  "fillna0 v = (case v of None \<Rightarrow> 0 | Some x \<Rightarrow> x)"

record comparison_row =
  c_Material_Code :: string
  c_Total_PDF :: real
  c_Total_EXCEL :: real
  c_Status :: status

text \<open>\<^verbatim>\<open>"Match" if abs(x['Total_PDF'] - x['Total_EXCEL']) <= tolerance else "Mismatch"\<close>\<close>

definition item_status :: "real \<Rightarrow> real \<Rightarrow> real \<Rightarrow> status" where
  "item_status tolerance total_pdf total_excel =
     (if \<bar>total_pdf - total_excel\<bar> \<le> tolerance then Match else Mismatch)"

definition comparison ::
  "real \<Rightarrow> (string \<times> real option \<times> real option) list \<Rightarrow> comparison_row list" where
  "comparison tolerance merged =
     map (\<lambda>(k, a, b).
            \<lparr>c_Material_Code = k, c_Total_PDF = fillna0 a, c_Total_EXCEL = fillna0 b,
             c_Status = item_status tolerance (fillna0 a) (fillna0 b)\<rparr>)
       merged"

record summary_row =
  Metric :: string
  PDF_Data :: real
  Excel_Sum :: real
  Difference :: real
  s_Status :: status

text \<open>The three rows of \<^verbatim>\<open>summary_results\<close>: the quantity row compares the difference
  with 0, the tax and grand-total rows compare its magnitude with the tolerance.\<close>

definition summary_results :: "real \<Rightarrow> pdf_summary \<Rightarrow> excel_row list \<Rightarrow> summary_row list" where
  "summary_results tolerance summary excel_df =
     (let qty = sum_list (map Qty_EXCEL excel_df);
          tax = sum_list (map Tax_EXCEL excel_df);
          total = sum_list (map Total_EXCEL excel_df)
      in [\<lparr>Metric = ''Total Quantity'', PDF_Data = Gross_Total_Qty summary, Excel_Sum = qty,
            Difference = Gross_Total_Qty summary - qty,
            s_Status = (if Gross_Total_Qty summary - qty = 0 then Match else Mismatch)\<rparr>,
          \<lparr>Metric = ''Total Tax'', PDF_Data = Total_Tax_Footer summary, Excel_Sum = tax,
            Difference = Total_Tax_Footer summary - tax,
            s_Status = (if \<bar>Total_Tax_Footer summary - tax\<bar> \<le> tolerance then Match else Mismatch)\<rparr>,
          \<lparr>Metric = ''Grand Total'', PDF_Data = Grand_Total_Footer summary, Excel_Sum = total,
            Difference = Grand_Total_Footer summary - total,
            s_Status = (if \<bar>Grand_Total_Footer summary - total\<bar> \<le> tolerance then Match else Mismatch)\<rparr>])"

text \<open>
  \<^verbatim>\<open>(len(comp_df[comp_df['Status'] == 'Match']) / len(comp_df)) * 100\<close>: the division of
  two Python integers raises \<^verbatim>\<open>ZeroDivisionError\<close> when the divisor is 0. The
  rendering of the value with two decimals is left out.
\<close>

definition overall_accuracy :: "comparison_row list \<Rightarrow> py_error + real" where
  "overall_accuracy comp_df =
     (if length comp_df = 0 then Inl ZeroDivisionError
      else Inr (real (length (filter (\<lambda>r. c_Status r = Match) comp_df)) / real (length comp_df) * 100))"

record report =
  comp_df :: "comparison_row list"
  grand_totals :: "summary_row list"
  accuracy :: real

text \<open>
  The block run by the button (lines 130--148): the sheet is normalised, the document
  result is reduced with the sheet's codes as filter, both are merged and compared, the
  grand totals and the accuracy are computed. \<open>result\<close> is what the document service
  returned.
\<close>

definition reconciliation :: "real \<Rightarrow> cell list list \<Rightarrow> analyze_result \<Rightarrow> py_error + report" where
  "reconciliation tolerance sheet result =
     (case load_and_clean_excel sheet of
        Inl e \<Rightarrow> Inl e
      | Inr excel_df \<Rightarrow>
          (let valid_codes = map Material_Code excel_df;
               (pdf_df, summary) = extract_pdf_data result valid_codes
           in case merge_outer pdf_df (map (\<lambda>r. (Material_Code r, Total_EXCEL r)) excel_df) of
                Inl e \<Rightarrow> Inl e
              | Inr merged \<Rightarrow>
                  (let rows = comparison tolerance merged in
                   case overall_accuracy rows of
                     Inl e \<Rightarrow> Inl e
                   | Inr acc \<Rightarrow>
                       Inr \<lparr>comp_df = rows,
                            grand_totals = summary_results tolerance summary excel_df,
                            accuracy = acc\<rparr>)))"

subsection \<open>Vocabulary of the properties\<close>

text \<open>The comparison rows that carry a given code, and the number of rows of a frame
  (as pairs of code and amount) that carry it.\<close>

definition rows_of :: "string \<Rightarrow> comparison_row list \<Rightarrow> comparison_row list" where
  "rows_of k rows = filter (\<lambda>r. c_Material_Code r = k) rows"

definition count_code :: "string \<Rightarrow> (string \<times> real) list \<Rightarrow> nat" where
  "count_code k xs = length (filter (\<lambda>p. fst p = k) xs)"

subsection \<open>Example inputs\<close>

definition text_field :: "string \<Rightarrow> document_field" where
  "text_field s = \<lparr>value_number = None, value_currency = None, content = Some s\<rparr>"

definition number_field :: "real \<Rightarrow> document_field" where
  "number_field x = \<lparr>value_number = Some x, value_currency = None, content = None\<rparr>"

text \<open>A sheet row of the template: code in column 0, quantity in column 4, tax in
  column 10, total in column 11.\<close>

definition sheet_row :: "string \<Rightarrow> string \<Rightarrow> string \<Rightarrow> string \<Rightarrow> cell list" where
  "sheet_row code qty tax tot =
     [Val code, Null, Null, Null, Val qty, Null, Null, Null, Null, Null, Val tax, Val tot]"

definition example_sheet :: "cell list list" where
  "example_sheet =
     [[Val ''Tramontina invoice''],
      sheet_row ''SKU'' ''Qty'' ''Tax'' ''Total'',
      sheet_row ''TR-A1 '' ''5'' ''Rs 10.50'' ''110'',
      sheet_row ''B2'' ''1'' ''0'' ''7'',
      [Null]]"

text \<open>A document with the item A1 twice (once with a negative structured amount, once as
  text) and a row of a tax table whose code the sheet does not know.\<close>

definition example_result :: analyze_result where
  "example_result =
     \<lparr>documents =
        [\<lparr>Items = Some [\<lparr>ProductCode = Some (text_field '' A1''), Amount = Some (number_field (- 110))\<rparr>,
                        \<lparr>ProductCode = Some (text_field ''HSN9999''), Amount = Some (number_field 50)\<rparr>,
                        \<lparr>ProductCode = Some (text_field ''A1''), Amount = Some (text_field ''Rs 110.00'')\<rparr>],
          TotalTax = Some (number_field 10.5), InvoiceTotal = Some (text_field ''117.00'')\<rparr>],
      result_content = ''Gross Total: 6''\<rparr>"

definition example_report :: report where
  "example_report =
     \<lparr>comp_df =
        [\<lparr>c_Material_Code = ''A1'', c_Total_PDF = 110, c_Total_EXCEL = 110, c_Status = Match\<rparr>,
         \<lparr>c_Material_Code = ''B2'', c_Total_PDF = 0, c_Total_EXCEL = 7, c_Status = Match\<rparr>],
      grand_totals =
        [\<lparr>Metric = ''Total Quantity'', PDF_Data = 6, Excel_Sum = 6, Difference = 0, s_Status = Match\<rparr>,
         \<lparr>Metric = ''Total Tax'', PDF_Data = 10.5, Excel_Sum = 10.5, Difference = 0, s_Status = Match\<rparr>,
         \<lparr>Metric = ''Grand Total'', PDF_Data = 117, Excel_Sum = 117, Difference = 0, s_Status = Match\<rparr>],
      accuracy = 100\<rparr>"

text \<open>A sheet that lists the code A1 on two rows, and the report of the run on it.\<close>

definition duplicate_sheet :: "cell list list" where
  "duplicate_sheet =
     [sheet_row ''SKU'' ''Qty'' ''Tax'' ''Total'',
      sheet_row ''A1'' ''5'' ''10.50'' ''110'',
      sheet_row ''A1'' ''2'' ''0'' ''55'']"

definition duplicate_report :: report where
  "duplicate_report =
     \<lparr>comp_df =
        [\<lparr>c_Material_Code = ''A1'', c_Total_PDF = 110, c_Total_EXCEL = 110, c_Status = Match\<rparr>,
         \<lparr>c_Material_Code = ''A1'', c_Total_PDF = 110, c_Total_EXCEL = 55, c_Status = Mismatch\<rparr>],
      grand_totals =
        [\<lparr>Metric = ''Total Quantity'', PDF_Data = 6, Excel_Sum = 7, Difference = - 1, s_Status = Mismatch\<rparr>,
         \<lparr>Metric = ''Total Tax'', PDF_Data = 10.5, Excel_Sum = 10.5, Difference = 0, s_Status = Match\<rparr>,
         \<lparr>Metric = ''Grand Total'', PDF_Data = 117, Excel_Sum = 165, Difference = - 48, s_Status = Mismatch\<rparr>],
      accuracy = 50\<rparr>"

definition header_only_sheet :: "cell list list" where
  "header_only_sheet = [sheet_row ''SKU'' ''Qty'' ''Tax'' ''Total'']"

definition no_header_sheet :: "cell list list" where
  "no_header_sheet =
     [sheet_row ''sku'' ''Qty'' ''Tax'' ''Total'', sheet_row ''A1'' ''5'' ''10.50'' ''110'']"

definition no_items_result :: analyze_result where
  "no_items_result =
     \<lparr>documents = [\<lparr>Items = None, TotalTax = None, InvoiceTotal = None\<rparr>], result_content = []\<rparr>"

text \<open>A document whose only item is a row of a tax table: no item survives the
  cross-reference filter.\<close>

definition hsn_only_result :: analyze_result where
  "hsn_only_result =
     \<lparr>documents =
        [\<lparr>Items = Some [\<lparr>ProductCode = Some (text_field ''HSN9999''), Amount = Some (number_field 50)\<rparr>],
          TotalTax = Some (number_field 10.5), InvoiceTotal = Some (text_field ''117.00'')\<rparr>],
      result_content = ''Gross Total: 6''\<rparr>"

section \<open>Properties\<close>

subsection \<open>Numeric coercion\<close>

lemma py_float_Nil: "py_float [] = Inl ValueError"
  by (simp add: py_float_def)

lemma py_float_nonneg: "py_float s = Inr v \<Longrightarrow> 0 \<le> v"
  by (auto simp: py_float_def Let_def split: list.splits if_splits)

lemma clean_currency_nonneg: "0 \<le> clean_currency v"
  by (auto simp: clean_currency_def dest: py_float_nonneg split: cell.splits sum.splits)

lemma clean_num_strict_nonneg: "0 \<le> clean_num_strict field"
  by (auto simp: clean_num_strict_def Let_def dest: py_float_nonneg split: option.splits sum.splits)





text \<open>
  Claim C8. A missing value, a text with no digit or decimal point left after the strip,
  and a stripped text that \<^verbatim>\<open>float\<close> rejects all give 0.0: the \<^verbatim>\<open>ValueError\<close> of the
  parse (raised also on the empty string) is turned into the result 0.0, so no error leaves
  the coercion. For \<open>clean_num_strict\<close> the text is read when the field carries neither a
  structured number nor a structured currency amount.
\<close>

theorem unparseable_yields_zero:
  "clean_currency Null = 0
   \<and> (keep_num s = [] \<longrightarrow> clean_currency (Val s) = 0)
   \<and> (py_float (keep_num s) = Inl e \<longrightarrow> clean_currency (Val s) = 0)
   \<and> py_float [] = Inl ValueError
   \<and> clean_num_strict None = 0
   \<and> (value_number f = None \<and> value_currency f = None
        \<and> (keep_num (str_content (content f)) = []
            \<or> py_float (keep_num (str_content (content f))) = Inl e)
       \<longrightarrow> clean_num_strict (Some f) = 0)"
  by (simp add: clean_currency_def clean_num_strict_def Let_def py_float_Nil)

theorem unparseable_yields_zero_witness:
  "keep_num ''n/a'' = [] \<and> clean_currency (Val ''n/a'') = 0
   \<and> py_float (keep_num ''1.2.3'') = Inl ValueError \<and> clean_currency (Val ''1.2.3'') = 0
   \<and> clean_num_strict (Some \<lparr>value_number = None, value_currency = None, content = Some ''1.2.3''\<rparr>) = 0
   \<and> clean_num_strict (Some \<lparr>value_number = None, value_currency = None, content = None\<rparr>) = 0"
proof -
  have k: "keep_num ''n/a'' = []" "keep_num ''1.2.3'' = ''1.2.3''" "keep_num ''None'' = []"
    by (simp_all add: keep_num_def is_digit_def)
  have p: "py_float ''1.2.3'' = Inl ValueError"
    by (simp add: py_float_def is_digit_def)
  show ?thesis
    using k p
      unparseable_yields_zero [of "''n/a''" ValueError
        "\<lparr>value_number = None, value_currency = None, content = None\<rparr>"]
      unparseable_yields_zero [of "''1.2.3''" ValueError
        "\<lparr>value_number = None, value_currency = None, content = Some ''1.2.3''\<rparr>"]
    by (simp add: str_content_def)
qed

subsection \<open>Substrings and the example runs\<close>

lemma starts_with_iff: "starts_with p s \<longleftrightarrow> (\<exists>t. s = p @ t)"
  by (induction p s rule: starts_with.induct) auto

lemma contains_str_iff: "contains_str sub s \<longleftrightarrow> (\<exists>a b. s = a @ sub @ b)"
proof (induction s)
  case Nil
  then show ?case by auto
next
  case (Cons c cs)
  show ?case
  proof
    assume "contains_str sub (c # cs)"
    then consider "starts_with sub (c # cs)" | "contains_str sub cs" by auto
    then show "\<exists>a b. c # cs = a @ sub @ b"
    proof cases
      case 1
      then obtain t where "c # cs = sub @ t" by (auto simp: starts_with_iff)
      then have "c # cs = [] @ sub @ t" by simp
      then show ?thesis by blast
    next
      case 2
      then obtain a b where "cs = a @ sub @ b" using Cons.IH by blast
      then have "c # cs = (c # a) @ sub @ b" by simp
      then show ?thesis by blast
    qed
  next
    assume "\<exists>a b. c # cs = a @ sub @ b"
    then obtain a b where ab: "c # cs = a @ sub @ b" by blast
    show "contains_str sub (c # cs)"
    proof (cases a)
      case Nil
      then have "starts_with sub (c # cs)" using ab by (auto simp: starts_with_iff)
      then show ?thesis by simp
    next
      case (Cons x a')
      then have "cs = a' @ sub @ b" using ab by simp
      then have "contains_str sub cs" using Cons.IH by blast
      then show ?thesis by simp
    qed
  qed
qed

lemma example_run: "reconciliation 10 example_sheet example_result = Inr example_report"
  by code_simp

lemma example_load:
  "load_and_clean_excel example_sheet = Inr
     [\<lparr>Material_Code = ''A1'', Qty_EXCEL = 5, Tax_EXCEL = 10.5, Total_EXCEL = 110\<rparr>,
      \<lparr>Material_Code = ''B2'', Qty_EXCEL = 1, Tax_EXCEL = 0, Total_EXCEL = 7\<rparr>]"
  by code_simp

lemma example_extract: "fst (extract_pdf_data example_result [''A1'', ''B2'']) = [(''A1'', 110)]"
  by code_simp

lemma reconciliation_InrD:
  assumes "reconciliation tolerance sheet result = Inr rep"
  obtains excel_df merged where
    "load_and_clean_excel sheet = Inr excel_df"
    "merge_outer (fst (extract_pdf_data result (map Material_Code excel_df)))
        (map (\<lambda>r. (Material_Code r, Total_EXCEL r)) excel_df) = Inr merged"
    "comp_df rep = comparison tolerance merged"
    "grand_totals rep = summary_results tolerance (snd (extract_pdf_data result (map Material_Code excel_df))) excel_df"
    "overall_accuracy (comp_df rep) = Inr (accuracy rep)"
  using assms
  by (auto simp: reconciliation_def Let_def split: sum.splits prod.splits)

subsection \<open>Overall accuracy\<close>

lemma accuracy_nonempty_rows:
  "rows \<noteq> [] \<Longrightarrow> overall_accuracy rows =
     Inr (real (length (filter (\<lambda>r. c_Status r = Match) rows)) / real (length rows) * 100)"
  by (simp add: overall_accuracy_def)

text \<open>The expression of line 148 has no guard for zero rows.\<close>

lemma accuracy_no_rows: "overall_accuracy [] = Inl ZeroDivisionError"
  by (simp add: overall_accuracy_def)

text \<open>Every report has at least one comparison row, and its accuracy is the share of
  Match rows times 100: the division by zero is never reached in a run.\<close>

lemma report_rows_nonempty:
  assumes "reconciliation tolerance sheet result = Inr rep"
  shows "comp_df rep \<noteq> []
     \<and> accuracy rep = real (length (filter (\<lambda>r. c_Status r = Match) (comp_df rep)))
                        / real (length (comp_df rep)) * 100"
proof -
  from assms have "overall_accuracy (comp_df rep) = Inr (accuracy rep)"
    by (rule reconciliation_InrD)
  then show ?thesis by (auto simp: overall_accuracy_def split: if_splits)
qed

subsection \<open>Extraction and the cross-reference filter\<close>

lemma line_item_SomeD:
  "line_item codes val = Some p \<Longrightarrow>
     fst p \<in> set codes \<and> \<not> contains_str ''total'' (lower (fst p)) \<and> snd p \<noteq> 0
     \<and> snd p = clean_num_strict (Amount val)"
  by (auto simp: line_item_def Let_def split: option.splits if_splits)

lemma set_drop_duplicates: "set (drop_duplicates xs) = set xs"
  by (induction xs rule: drop_duplicates.induct) auto

lemma distinct_drop_duplicates: "distinct (drop_duplicates xs)"
  by (induction xs rule: drop_duplicates.induct) (auto simp: set_drop_duplicates)

lemma all_line_items_D:
  "p \<in> set (all_line_items codes docs) \<Longrightarrow> \<exists>val. line_item codes val = Some p"
  by (auto simp: all_line_items_def List.map_filter_def split: option.splits)

lemma pdf_df_rows:
  assumes "p \<in> set (fst (extract_pdf_data result codes))"
  shows "fst p \<in> set codes \<and> \<not> contains_str ''total'' (lower (fst p)) \<and> snd p \<noteq> 0 \<and> 0 < snd p"
proof -
  from assms have "p \<in> set (all_line_items codes (documents result))"
    by (simp add: extract_pdf_data_def Let_def set_drop_duplicates)
  then obtain val where v: "line_item codes val = Some p"
    using all_line_items_D by blast
  from line_item_SomeD [OF v] clean_num_strict_nonneg [of "Amount val"]
  show ?thesis by auto
qed

text \<open>
  Claim C2. Every row of the frame returned by \<open>extract_pdf_data\<close> carries a code of the
  list of spreadsheet codes it was given; an item whose trimmed code is not in that list
  yields no row, and a code outside the list occurs in no row.
\<close>

theorem extracted_codes_in_sheet_codes:
  "(\<forall>p \<in> set (fst (extract_pdf_data result codes)). fst p \<in> set codes)
   \<and> (ProductCode val = Some f \<and> content f = Some c \<and> strip c \<notin> set codes
        \<longrightarrow> line_item codes val = None)
   \<and> (k \<notin> set codes \<longrightarrow> k \<notin> fst ` set (fst (extract_pdf_data result codes)))"
  using pdf_df_rows [of _ result codes]
  by (auto simp: line_item_def Let_def)

theorem extracted_codes_in_sheet_codes_witness:
  "fst (extract_pdf_data example_result [''A1'', ''B2'']) = [(''A1'', 110)]
   \<and> list_all (\<lambda>p. fst p \<in> set [''A1'', ''B2'']) (fst (extract_pdf_data example_result [''A1'', ''B2'']))
   \<and> strip ''HSN9999'' \<notin> set [''A1'', ''B2'']
   \<and> line_item [''A1'', ''B2'']
        \<lparr>ProductCode = Some (text_field ''HSN9999''), Amount = Some (number_field 50)\<rparr> = None
   \<and> ''HSN9999'' \<notin> fst ` set (fst (extract_pdf_data example_result [''A1'', ''B2'']))"
proof -
  note t = extracted_codes_in_sheet_codes [of example_result "[''A1'', ''B2'']"
      "\<lparr>ProductCode = Some (text_field ''HSN9999''), Amount = Some (number_field 50)\<rparr>"
      "text_field ''HSN9999''" "''HSN9999''" "''HSN9999''"]
  have s: "strip ''HSN9999'' \<notin> set [''A1'', ''B2'']" by code_simp
  have k: "''HSN9999'' \<notin> set [''A1'', ''B2'']" by simp
  have c: "content (text_field ''HSN9999'') = Some ''HSN9999''" by (simp add: text_field_def)
  have 1: "list_all (\<lambda>p. fst p \<in> set [''A1'', ''B2'']) (fst (extract_pdf_data example_result [''A1'', ''B2'']))"
    unfolding list_all_iff using t by blast
  have 2: "line_item [''A1'', ''B2'']
        \<lparr>ProductCode = Some (text_field ''HSN9999''), Amount = Some (number_field 50)\<rparr> = None"
    using t s c by simp
  have 3: "''HSN9999'' \<notin> fst ` set (fst (extract_pdf_data example_result [''A1'', ''B2'']))"
    using t k by blast
  show ?thesis using example_extract 1 2 3 s by blast
qed

text \<open>
  Claim C6. An item whose trimmed code, in lower case, contains \<^verbatim>\<open>total\<close>, or whose
  coerced amount is 0, yields no row; so no row of the returned frame has such a code or
  the amount 0.
\<close>

theorem footer_and_zero_rows_dropped:
  "(ProductCode val = Some f \<and> content f = Some c
      \<and> (contains_str ''total'' (lower (strip c)) \<or> clean_num_strict (Amount val) = 0)
        \<longrightarrow> line_item codes val = None)
   \<and> (\<forall>p \<in> set (fst (extract_pdf_data result codes)).
         \<not> contains_str ''total'' (lower (fst p)) \<and> snd p \<noteq> 0)"
  using pdf_df_rows [of _ result codes]
  by (auto simp: line_item_def Let_def)

theorem footer_and_zero_rows_dropped_witness:
  "contains_str ''total'' (lower (strip ''Sub Total ''))
   \<and> line_item [''A1'', ''Sub Total'']
        \<lparr>ProductCode = Some (text_field ''Sub Total ''), Amount = Some (number_field 117)\<rparr> = None
   \<and> clean_num_strict (Some (text_field ''n/a'')) = 0
   \<and> line_item [''A1'', ''Sub Total'']
        \<lparr>ProductCode = Some (text_field ''A1''), Amount = Some (text_field ''n/a'')\<rparr> = None
   \<and> list_all (\<lambda>p. \<not> contains_str ''total'' (lower (fst p)) \<and> snd p \<noteq> 0)
        (fst (extract_pdf_data example_result [''A1'', ''B2'']))"
proof -
  have a: "contains_str ''total'' (lower (strip ''Sub Total ''))" by code_simp
  have b: "clean_num_strict (Some (text_field ''n/a'')) = 0" by code_simp
  have c: "content (text_field s) = Some s" for s by (simp add: text_field_def)
  have 1: "line_item [''A1'', ''Sub Total'']
        \<lparr>ProductCode = Some (text_field ''Sub Total ''), Amount = Some (number_field 117)\<rparr> = None"
    using footer_and_zero_rows_dropped
      [of "\<lparr>ProductCode = Some (text_field ''Sub Total ''), Amount = Some (number_field 117)\<rparr>"
        "text_field ''Sub Total ''" "''Sub Total ''" "[''A1'', ''Sub Total'']" example_result] a c
    by simp
  have 2: "line_item [''A1'', ''Sub Total'']
        \<lparr>ProductCode = Some (text_field ''A1''), Amount = Some (text_field ''n/a'')\<rparr> = None"
    using footer_and_zero_rows_dropped
      [of "\<lparr>ProductCode = Some (text_field ''A1''), Amount = Some (text_field ''n/a'')\<rparr>"
        "text_field ''A1''" "''A1''" "[''A1'', ''Sub Total'']" example_result] b c
    by simp
  have 3: "list_all (\<lambda>p. \<not> contains_str ''total'' (lower (fst p)) \<and> snd p \<noteq> 0)
        (fst (extract_pdf_data example_result [''A1'', ''B2'']))"
    unfolding list_all_iff
    using footer_and_zero_rows_dropped
      [of "\<lparr>ProductCode = Some (text_field ''A1''), Amount = Some (text_field ''n/a'')\<rparr>"
        "text_field ''A1''" "''A1''" "[''A1'', ''B2'']" example_result]
    by blast
  show ?thesis using a b 1 2 3 by blast
qed

subsection \<open>Header row of the sheet\<close>

lemma row_has_SKU_iff: "row_has_SKU r \<longleftrightarrow> (\<exists>c \<in> set r. contains_str ''SKU'' (astype_str c))"
  by (simp add: row_has_SKU_def list_ex_iff)

lemma header_none:
  assumes "\<forall>r \<in> set sheet. \<not> row_has_SKU r"
  shows "header_row_idx sheet = Inl IndexError"
proof -
  have "takeWhile (\<lambda>r. \<not> row_has_SKU r) sheet = sheet"
    using assms by (simp add: takeWhile_eq_all_conv)
  then have len: "length (takeWhile (\<lambda>r. \<not> row_has_SKU r) sheet) = length sheet"
    by (simp only:)
  show ?thesis unfolding header_row_idx_def Let_def len by simp
qed

lemma header_first:
  assumes "\<exists>r \<in> set sheet. row_has_SKU r"
  shows "\<exists>h. header_row_idx sheet = Inr h \<and> h < length sheet \<and> row_has_SKU (sheet ! h)
            \<and> (\<forall>j<h. \<not> row_has_SKU (sheet ! j))"
proof -
  let ?P = "\<lambda>r. \<not> row_has_SKU r"
  let ?h = "length (takeWhile ?P sheet)"
  have ne: "takeWhile ?P sheet \<noteq> sheet"
    using assms by (auto simp: takeWhile_eq_all_conv)
  have le: "?h \<le> length sheet" by (rule length_takeWhile_le)
  have lt: "?h < length sheet"
  proof (rule ccontr)
    assume "\<not> ?h < length sheet"
    with le have "?h = length sheet" by simp
    then have "takeWhile ?P sheet = sheet"
      by (metis takeWhile_dropWhile_id append_eq_conv_conj length_0_conv length_drop diff_self_eq_0 append_Nil2)
    with ne show False by simp
  qed
  have at: "row_has_SKU (sheet ! ?h)"
    using nth_length_takeWhile [OF lt] by simp
  have before: "\<forall>j<?h. \<not> row_has_SKU (sheet ! j)"
  proof (intro allI impI)
    fix j assume j: "j < ?h"
    then have "takeWhile ?P sheet ! j = sheet ! j" by (rule takeWhile_nth)
    moreover have "takeWhile ?P sheet ! j \<in> set (takeWhile ?P sheet)" using j by simp
    ultimately show "\<not> row_has_SKU (sheet ! j)" by (metis set_takeWhileD)
  qed
  show ?thesis using lt at before by (auto simp: header_row_idx_def Let_def)
qed

lemma load_totals_nonneg:
  assumes "load_and_clean_excel sheet = Inr excel_df" and "e \<in> set excel_df"
  shows "0 \<le> Total_EXCEL e"
  using assms clean_currency_nonneg
  by (auto simp: load_and_clean_excel_def clean_rows_def iloc_def split: sum.splits if_splits)

text \<open>
  Claim C9. When no cell of any row of the sheet contains \<^verbatim>\<open>SKU\<close> (as a substring of its
  text, case as written), \<open>load_and_clean_excel\<close> returns no frame but the error raised by
  \<^verbatim>\<open>.index[0]\<close> on the empty selection, and so does the whole run. When some cell does,
  the header index is that of the first such row, and the frame is the cleaning of the rows
  after it.
\<close>

theorem header_row_first_SKU:
  "((\<forall>r \<in> set sheet. \<forall>c \<in> set r. \<not> contains_str ''SKU'' (astype_str c))
      \<longrightarrow> load_and_clean_excel sheet = Inl IndexError
          \<and> reconciliation tolerance sheet result = Inl IndexError)
   \<and> ((\<exists>r \<in> set sheet. \<exists>c \<in> set r. contains_str ''SKU'' (astype_str c))
      \<longrightarrow> (\<exists>h. header_row_idx sheet = Inr h \<and> h < length sheet
               \<and> (\<exists>c \<in> set (sheet ! h). contains_str ''SKU'' (astype_str c))
               \<and> (\<forall>j<h. \<forall>c \<in> set (sheet ! j). \<not> contains_str ''SKU'' (astype_str c))
               \<and> load_and_clean_excel sheet = clean_rows (frame_width sheet) (drop (Suc h) sheet)))"
proof (intro conjI impI)
  assume none: "\<forall>r \<in> set sheet. \<forall>c \<in> set r. \<not> contains_str ''SKU'' (astype_str c)"
  then have "\<forall>r \<in> set sheet. \<not> row_has_SKU r" by (simp add: row_has_SKU_iff)
  then have h: "header_row_idx sheet = Inl IndexError" by (rule header_none)
  then show l: "load_and_clean_excel sheet = Inl IndexError"
    by (simp add: load_and_clean_excel_def)
  then show "reconciliation tolerance sheet result = Inl IndexError"
    by (simp add: reconciliation_def)
next
  assume "\<exists>r \<in> set sheet. \<exists>c \<in> set r. contains_str ''SKU'' (astype_str c)"
  then have "\<exists>r \<in> set sheet. row_has_SKU r" by (simp add: row_has_SKU_iff)
  from header_first [OF this] obtain h where h: "header_row_idx sheet = Inr h" "h < length sheet"
    "row_has_SKU (sheet ! h)" "\<forall>j<h. \<not> row_has_SKU (sheet ! j)" by blast
  have "load_and_clean_excel sheet = clean_rows (frame_width sheet) (drop (Suc h) sheet)"
    using h(1) by (simp add: load_and_clean_excel_def)
  with h show "\<exists>h. header_row_idx sheet = Inr h \<and> h < length sheet
               \<and> (\<exists>c \<in> set (sheet ! h). contains_str ''SKU'' (astype_str c))
               \<and> (\<forall>j<h. \<forall>c \<in> set (sheet ! j). \<not> contains_str ''SKU'' (astype_str c))
               \<and> load_and_clean_excel sheet = clean_rows (frame_width sheet) (drop (Suc h) sheet)"
    by (auto simp: row_has_SKU_iff)
qed

theorem header_row_first_SKU_witness:
  "load_and_clean_excel no_header_sheet = Inl IndexError
   \<and> reconciliation 10 no_header_sheet example_result = Inl IndexError
   \<and> header_row_idx example_sheet = Inr 1
   \<and> load_and_clean_excel example_sheet = clean_rows 12 (drop 2 example_sheet)"
proof -
  have a: "\<forall>r \<in> set no_header_sheet. \<forall>c \<in> set r. \<not> contains_str ''SKU'' (astype_str c)"
    by (simp add: no_header_sheet_def sheet_row_def astype_str_def)
  have b: "\<exists>r \<in> set example_sheet. \<exists>c \<in> set r. contains_str ''SKU'' (astype_str c)"
    by (simp add: example_sheet_def sheet_row_def astype_str_def)
  have c: "header_row_idx example_sheet = Inr 1" by code_simp
  have d: "frame_width example_sheet = 12" by code_simp
  from header_row_first_SKU [of no_header_sheet 10 example_result] a
  have 1: "load_and_clean_excel no_header_sheet = Inl IndexError"
    "reconciliation 10 no_header_sheet example_result = Inl IndexError" by blast+
  from header_row_first_SKU [of example_sheet 10 example_result] b
  obtain h where h: "header_row_idx example_sheet = Inr h"
    "load_and_clean_excel example_sheet = clean_rows (frame_width example_sheet) (drop (Suc h) example_sheet)"
    by blast
  from h(1) c have "h = 1" by simp
  with h(2) d have "load_and_clean_excel example_sheet = clean_rows 12 (drop 2 example_sheet)"
    by (simp add: numeral_2_eq_2)
  with 1 c show ?thesis by simp
qed

subsection \<open>Statuses\<close>

lemma comparison_status:
  "r \<in> set (comparison tolerance merged) \<Longrightarrow>
     (c_Status r = Match \<longleftrightarrow> \<bar>c_Total_PDF r - c_Total_EXCEL r\<bar> \<le> tolerance)"
  by (auto simp: comparison_def item_status_def split: if_splits)

text \<open>
  Claim C4. The status of an item row is Match exactly when the magnitude of the
  difference of its two amounts is at most the tolerance, and Mismatch exactly when it is
  larger; this holds for every row of every report. With a non-negative tolerance, a
  difference equal to the tolerance is Match and any larger one is Mismatch.
\<close>

theorem item_status_within_tolerance:
  "(item_status tolerance a b = Match \<longleftrightarrow> \<bar>a - b\<bar> \<le> tolerance)
   \<and> (item_status tolerance a b = Mismatch \<longleftrightarrow> tolerance < \<bar>a - b\<bar>)
   \<and> (reconciliation tolerance sheet result = Inr rep \<longrightarrow>
        (\<forall>r \<in> set (comp_df rep).
           (c_Status r = Match \<longleftrightarrow> \<bar>c_Total_PDF r - c_Total_EXCEL r\<bar> \<le> tolerance)
           \<and> (c_Status r = Mismatch \<longleftrightarrow> tolerance < \<bar>c_Total_PDF r - c_Total_EXCEL r\<bar>)))
   \<and> (0 \<le> tolerance \<longrightarrow> item_status tolerance (b + tolerance) b = Match
         \<and> item_status tolerance b (b + tolerance) = Match)
   \<and> (0 \<le> tolerance \<and> 0 < d \<longrightarrow> item_status tolerance (b + tolerance + d) b = Mismatch
         \<and> item_status tolerance b (b + tolerance + d) = Mismatch)"
proof -
  have rows: "(c_Status r = Match \<longleftrightarrow> \<bar>c_Total_PDF r - c_Total_EXCEL r\<bar> \<le> tolerance)
           \<and> (c_Status r = Mismatch \<longleftrightarrow> tolerance < \<bar>c_Total_PDF r - c_Total_EXCEL r\<bar>)"
    if "reconciliation tolerance sheet result = Inr rep" "r \<in> set (comp_df rep)" for r
  proof -
    from that(1) obtain merged where "comp_df rep = comparison tolerance merged"
      by (rule reconciliation_InrD)
    with that(2) have "r \<in> set (comparison tolerance merged)" by simp
    from comparison_status [OF this] show ?thesis by (cases "c_Status r") auto
  qed
  have st: "(item_status tolerance a b = Match \<longleftrightarrow> \<bar>a - b\<bar> \<le> tolerance)
      \<and> (item_status tolerance a b = Mismatch \<longleftrightarrow> tolerance < \<bar>a - b\<bar>)" for a b
    by (simp add: item_status_def)
  have bd: "0 \<le> tolerance \<longrightarrow> item_status tolerance (b + tolerance) b = Match
         \<and> item_status tolerance b (b + tolerance) = Match"
    by (simp add: item_status_def)
  have ab: "0 \<le> tolerance \<and> 0 < d \<longrightarrow> item_status tolerance (b + tolerance + d) b = Mismatch
         \<and> item_status tolerance b (b + tolerance + d) = Mismatch"
    by (simp add: item_status_def)
  show ?thesis using rows st [of a b] bd ab by blast
qed

theorem item_status_within_tolerance_witness:
  "reconciliation 10 example_sheet example_result = Inr example_report
   \<and> list_all (\<lambda>r. c_Status r = Match \<longleftrightarrow> \<bar>c_Total_PDF r - c_Total_EXCEL r\<bar> \<le> 10) (comp_df example_report)
   \<and> item_status 10 (110 + 10) 110 = Match
   \<and> item_status 10 (110 + 10 + 1) 110 = Mismatch"
proof -
  note t = item_status_within_tolerance
    [of 10 "110 + 10 + 1" 110 example_sheet example_result example_report 1]
  from t example_run
  have "\<forall>r \<in> set (comp_df example_report). c_Status r = Match \<longleftrightarrow> \<bar>c_Total_PDF r - c_Total_EXCEL r\<bar> \<le> 10"
    by blast
  then have 1: "list_all (\<lambda>r. c_Status r = Match \<longleftrightarrow> \<bar>c_Total_PDF r - c_Total_EXCEL r\<bar> \<le> 10) (comp_df example_report)"
    by (simp add: list_all_iff)
  have 2: "item_status 10 (110 + 10) 110 = Match" "item_status 10 (110 + 10 + 1) 110 = Mismatch"
    using t by simp_all
  show ?thesis using example_run 1 2 by simp
qed

text \<open>
  Claim C3. The first row of the grand totals is the quantity row. Its status is Match
  exactly when the gross quantity of the document minus the sum of the quantity column is
  0, whatever the tolerance, and Mismatch otherwise; a difference of magnitude 0.0001 is
  Mismatch for every tolerance. The same holds for the quantity row of every report.
\<close>

theorem quantity_status_exact:
  "Metric (summary_results tolerance summary excel_df ! 0) = ''Total Quantity''
   \<and> (s_Status (summary_results tolerance summary excel_df ! 0) = Match
        \<longleftrightarrow> Gross_Total_Qty summary - sum_list (map Qty_EXCEL excel_df) = 0)
   \<and> (s_Status (summary_results tolerance summary excel_df ! 0) = Mismatch
        \<longleftrightarrow> Gross_Total_Qty summary - sum_list (map Qty_EXCEL excel_df) \<noteq> 0)
   \<and> (\<bar>Gross_Total_Qty summary - sum_list (map Qty_EXCEL excel_df)\<bar> = 0.0001
        \<longrightarrow> s_Status (summary_results tolerance summary excel_df ! 0) = Mismatch)
   \<and> (reconciliation tolerance sheet result = Inr rep \<and> load_and_clean_excel sheet = Inr excel_df'
        \<longrightarrow> (s_Status (grand_totals rep ! 0) = Match
              \<longleftrightarrow> Gross_Total_Qty (snd (extract_pdf_data result (map Material_Code excel_df')))
                    - sum_list (map Qty_EXCEL excel_df') = 0))"
proof -
  have p: "s_Status (grand_totals rep ! 0) = Match
              \<longleftrightarrow> Gross_Total_Qty (snd (extract_pdf_data result (map Material_Code excel_df')))
                    - sum_list (map Qty_EXCEL excel_df') = 0"
    if "reconciliation tolerance sheet result = Inr rep" "load_and_clean_excel sheet = Inr excel_df'"
  proof -
    from that(1) obtain xl where xl: "load_and_clean_excel sheet = Inr xl"
      "grand_totals rep = summary_results tolerance (snd (extract_pdf_data result (map Material_Code xl))) xl"
      by (rule reconciliation_InrD)
    from xl(1) that(2) have "xl = excel_df'" by simp
    with xl(2) show ?thesis by (simp add: summary_results_def Let_def)
  qed
  have q: "Metric (summary_results tolerance summary excel_df ! 0) = ''Total Quantity''
   \<and> (s_Status (summary_results tolerance summary excel_df ! 0) = Match
        \<longleftrightarrow> Gross_Total_Qty summary - sum_list (map Qty_EXCEL excel_df) = 0)
   \<and> (s_Status (summary_results tolerance summary excel_df ! 0) = Mismatch
        \<longleftrightarrow> Gross_Total_Qty summary - sum_list (map Qty_EXCEL excel_df) \<noteq> 0)"
    by (simp add: summary_results_def Let_def)
  have r: "\<bar>Gross_Total_Qty summary - sum_list (map Qty_EXCEL excel_df)\<bar> = 0.0001
        \<longrightarrow> s_Status (summary_results tolerance summary excel_df ! 0) = Mismatch"
    using q by auto
  show ?thesis using p q r by blast
qed

theorem quantity_status_exact_witness:
  "s_Status (summary_results 50 \<lparr>Gross_Total_Qty = 100, Total_Tax_Footer = 0, Grand_Total_Footer = 0\<rparr>
        [\<lparr>Material_Code = ''A1'', Qty_EXCEL = 100.0001, Tax_EXCEL = 0, Total_EXCEL = 0\<rparr>] ! 0) = Mismatch
   \<and> s_Status (grand_totals example_report ! 0) = Match"
proof -
  have g: "Gross_Total_Qty (snd (extract_pdf_data example_result (map Material_Code
      [\<lparr>Material_Code = ''A1'', Qty_EXCEL = 5, Tax_EXCEL = 10.5, Total_EXCEL = 110\<rparr>,
       \<lparr>Material_Code = ''B2'', Qty_EXCEL = 1, Tax_EXCEL = 0, Total_EXCEL = 7\<rparr>]))) = 6"
    by code_simp
  note t = quantity_status_exact
    [of 50 "\<lparr>Gross_Total_Qty = 100, Total_Tax_Footer = 0, Grand_Total_Footer = 0\<rparr>"
      "[\<lparr>Material_Code = ''A1'', Qty_EXCEL = 100.0001, Tax_EXCEL = 0, Total_EXCEL = 0\<rparr>]"]
  have 1: "s_Status (summary_results 50 \<lparr>Gross_Total_Qty = 100, Total_Tax_Footer = 0, Grand_Total_Footer = 0\<rparr>
        [\<lparr>Material_Code = ''A1'', Qty_EXCEL = 100.0001, Tax_EXCEL = 0, Total_EXCEL = 0\<rparr>] ! 0) = Mismatch"
    using t by simp
  have 2: "s_Status (grand_totals example_report ! 0) = Match"
    using quantity_status_exact
      [of 10 "\<lparr>Gross_Total_Qty = 100, Total_Tax_Footer = 0, Grand_Total_Footer = 0\<rparr>" "[]"
        example_sheet example_result example_report] example_run example_load g
    by simp
  show ?thesis using 1 2 by simp
qed

subsection \<open>The outer join\<close>

lemma merge_key_rows_key: "r \<in> set (merge_key_rows left right k) \<Longrightarrow> fst r = k"
  by (auto simp: merge_key_rows_def Let_def split: if_splits)

lemma length_concat_const:
  "length (concat (map (\<lambda>l. map (g l) rs) ls)) = length ls * length rs"
  by (induction ls) auto

lemma length_merge_key_rows:
  "length (merge_key_rows left right k) =
     (if count_code k right = 0 then count_code k left
      else if count_code k left = 0 then count_code k right
      else count_code k left * count_code k right)"
  by (simp add: merge_key_rows_def Let_def count_code_def length_concat_const)

lemma merge_key_rows_left:
  "r \<in> set (merge_key_rows left right k) \<Longrightarrow>
     (case fst (snd r) of None \<Rightarrow> k \<notin> fst ` set left | Some a \<Rightarrow> (k, a) \<in> set left)"
  by (auto simp: merge_key_rows_def Let_def filter_empty_conv split: if_splits)

lemma merge_key_rows_right:
  "r \<in> set (merge_key_rows left right k) \<Longrightarrow>
     (case snd (snd r) of None \<Rightarrow> k \<notin> fst ` set right | Some a \<Rightarrow> (k, a) \<in> set right)"
  by (auto simp: merge_key_rows_def Let_def filter_empty_conv split: if_splits)

lemma filter_concat_key:
  assumes "distinct ks" and "\<And>k' r. r \<in> set (f k') \<Longrightarrow> key r = k'"
  shows "filter (\<lambda>r. key r = k) (concat (map f ks)) = (if k \<in> set ks then f k else [])"
  using assms(1)
proof (induction ks)
  case Nil
  then show ?case by simp
next
  case (Cons a ks)
  have own: "filter (\<lambda>r. key r = k) (f a) = (if a = k then f a else [])"
    using assms(2) [of _ a] by (auto simp: filter_empty_conv filter_id_conv)
  from Cons show ?case by (auto simp: own)
qed

lemma merge_outer_keys:
  "set (sort (remdups (map fst left @ map fst right))) = fst ` set left \<union> fst ` set right"
  by simp

lemma merged_rows_of_key:
  assumes "merge_outer left right = Inr merged"
  shows "filter (\<lambda>r. fst r = k) merged =
           (if k \<in> fst ` set left \<union> fst ` set right then merge_key_rows left right k else [])"
proof -
  let ?ks = "sort (remdups (map fst left @ map fst right))"
  from assms have m: "merged = concat (map (merge_key_rows left right) ?ks)"
    by (simp add: merge_outer_def split: if_splits)
  have d: "distinct ?ks" by simp
  have "filter (\<lambda>r. fst r = k) (concat (map (merge_key_rows left right) ?ks))
          = (if k \<in> set ?ks then merge_key_rows left right k else [])"
    by (rule filter_concat_key [OF d]) (rule merge_key_rows_key)
  then show ?thesis unfolding m by (simp only: merge_outer_keys)
qed

lemma merged_row_D:
  assumes "merge_outer left right = Inr merged" and "r \<in> set merged"
  shows "r \<in> set (merge_key_rows left right (fst r)) \<and> fst r \<in> fst ` set left \<union> fst ` set right"
proof -
  from assms(2) have "r \<in> set (filter (\<lambda>x. fst x = fst r) merged)" by simp
  then show ?thesis
    unfolding merged_rows_of_key [OF assms(1)] by (auto split: if_splits)
qed

lemma rows_of_comparison:
  "rows_of k (comparison tolerance merged) = comparison tolerance (filter (\<lambda>r. fst r = k) merged)"
  by (induction merged) (auto simp: rows_of_def comparison_def)

lemma length_comparison: "length (comparison tolerance merged) = length merged"
  by (simp add: comparison_def)

lemma comparison_row_D:
  "r \<in> set (comparison tolerance merged) \<Longrightarrow>
     \<exists>m \<in> set merged. c_Material_Code r = fst m \<and> c_Total_PDF r = fillna0 (fst (snd m))
        \<and> c_Total_EXCEL r = fillna0 (snd (snd m))"
  by (force simp: comparison_def)

lemma count_code_distinct:
  "distinct (map fst xs) \<Longrightarrow> count_code k xs = (if k \<in> fst ` set xs then 1 else 0)"
  by (induction xs) (auto simp: count_code_def)

lemma count_code_zero: "count_code k xs = 0 \<longleftrightarrow> k \<notin> fst ` set xs"
  by (auto simp: count_code_def filter_empty_conv)

lemma rows_of_merged_length:
  assumes "merge_outer left right = Inr merged"
  shows "length (rows_of k (comparison tolerance merged)) =
           (if count_code k right = 0 then count_code k left
            else if count_code k left = 0 then count_code k right
            else count_code k left * count_code k right)"
proof (cases "k \<in> fst ` set left \<union> fst ` set right")
  case True
  then show ?thesis
    by (simp only: rows_of_comparison length_comparison merged_rows_of_key [OF assms] if_True
        length_merge_key_rows)
next
  case False
  then have "count_code k left = 0" "count_code k right = 0"
    by (simp_all add: count_code_zero)
  with False show ?thesis
    by (simp add: rows_of_comparison length_comparison merged_rows_of_key [OF assms])
qed

lemma rows_of_merged_sides:
  assumes "merge_outer left right = Inr merged" and "r \<in> set (comparison tolerance merged)"
  shows "c_Material_Code r \<in> fst ` set left \<union> fst ` set right
       \<and> (c_Material_Code r \<notin> fst ` set left \<longrightarrow> c_Total_PDF r = 0)
       \<and> (c_Material_Code r \<notin> fst ` set right \<longrightarrow> c_Total_EXCEL r = 0)"
proof -
  from comparison_row_D [OF assms(2)] obtain m where m: "m \<in> set merged"
    "c_Material_Code r = fst m" "c_Total_PDF r = fillna0 (fst (snd m))"
    "c_Total_EXCEL r = fillna0 (snd (snd m))" by blast
  from merged_row_D [OF assms(1) m(1)]
  have km: "m \<in> set (merge_key_rows left right (fst m))"
    and ku: "fst m \<in> fst ` set left \<union> fst ` set right" by simp_all
  from merge_key_rows_left [OF km] have l: "fst m \<notin> fst ` set left \<longrightarrow> fst (snd m) = None"
    by (cases "fst (snd m)") force+
  from merge_key_rows_right [OF km] have r: "fst m \<notin> fst ` set right \<longrightarrow> snd (snd m) = None"
    by (cases "snd (snd m)") force+
  show ?thesis using m ku l r by (auto simp: fillna0_def)
qed

lemma merge_outer_returns: "left \<noteq> [] \<Longrightarrow> \<exists>merged. merge_outer left right = Inr merged"
  by (simp add: merge_outer_def)

lemma merged_nonempty:
  assumes "merge_outer left right = Inr merged"
  shows "merged \<noteq> []"
proof -
  from assms have ne: "left \<noteq> []" by (auto simp: merge_outer_def split: if_splits)
  then obtain p ps where l: "left = p # ps" by (cases left) auto
  have "count_code (fst p) left \<noteq> 0" using l by (simp add: count_code_def)
  then have "length (merge_key_rows left right (fst p)) \<noteq> 0"
    unfolding length_merge_key_rows by auto
  moreover have "filter (\<lambda>r. fst r = fst p) merged = merge_key_rows left right (fst p)"
    using merged_rows_of_key [OF assms, of "fst p"] l by simp
  ultimately show ?thesis by auto
qed

text \<open>
  Claim C5, as stated, fails: the join pairs every document row of a code with every
  spreadsheet row of that code, so a code listed on two rows of the sheet has two
  comparison rows.
\<close>

theorem outer_join_duplicate_code_counterexample:
  "reconciliation 10 duplicate_sheet example_result = Inr duplicate_report
   \<and> length (rows_of ''A1'' (comp_df duplicate_report)) = 2"
  by code_simp

text \<open>
  Claim C5, amended. When at least one document item survives the filters, the merge
  returns its frame, and in it a code has as many comparison rows as it has pairs of a
  document row and a spreadsheet row, or, when it occurs on one side only, as it has rows
  on that side; so every code of either side has at least one row, exactly one when no
  code is repeated within a side, and no other code has a row. A row whose code is absent
  from the document items has the document amount 0, and a row whose code is absent from
  the spreadsheet has the spreadsheet amount 0.
\<close>

theorem outer_join_rows_per_code:
  assumes "left \<noteq> []"
  shows "\<exists>merged. merge_outer left right = Inr merged
     \<and> (\<forall>k. length (rows_of k (comparison tolerance merged)) =
               (if count_code k right = 0 then count_code k left
                else if count_code k left = 0 then count_code k right
                else count_code k left * count_code k right)
            \<and> (k \<in> fst ` set left \<union> fst ` set right \<longrightarrow> rows_of k (comparison tolerance merged) \<noteq> [])
            \<and> (k \<notin> fst ` set left \<union> fst ` set right \<longrightarrow> rows_of k (comparison tolerance merged) = [])
            \<and> (distinct (map fst left) \<and> distinct (map fst right) \<and> k \<in> fst ` set left \<union> fst ` set right
                 \<longrightarrow> length (rows_of k (comparison tolerance merged)) = 1))
     \<and> (\<forall>r \<in> set (comparison tolerance merged).
           (c_Material_Code r \<notin> fst ` set left \<longrightarrow> c_Total_PDF r = 0)
           \<and> (c_Material_Code r \<notin> fst ` set right \<longrightarrow> c_Total_EXCEL r = 0))"
proof -
  from merge_outer_returns [OF assms] obtain merged where m: "merge_outer left right = Inr merged"
    by blast
  have per_code: "length (rows_of k (comparison tolerance merged)) =
               (if count_code k right = 0 then count_code k left
                else if count_code k left = 0 then count_code k right
                else count_code k left * count_code k right)
            \<and> (k \<in> fst ` set left \<union> fst ` set right \<longrightarrow> rows_of k (comparison tolerance merged) \<noteq> [])
            \<and> (k \<notin> fst ` set left \<union> fst ` set right \<longrightarrow> rows_of k (comparison tolerance merged) = [])
            \<and> (distinct (map fst left) \<and> distinct (map fst right) \<and> k \<in> fst ` set left \<union> fst ` set right
                 \<longrightarrow> length (rows_of k (comparison tolerance merged)) = 1)" for k
  proof -
    note len = rows_of_merged_length [OF m, of k tolerance]
    have ne: "rows_of k (comparison tolerance merged) \<noteq> []" if "k \<in> fst ` set left \<union> fst ` set right"
    proof -
      from that have "count_code k left \<noteq> 0 \<or> count_code k right \<noteq> 0"
        by (auto simp: count_code_zero)
      then have "length (rows_of k (comparison tolerance merged)) \<noteq> 0"
        unfolding len by auto
      then show ?thesis by simp
    qed
    have none: "rows_of k (comparison tolerance merged) = []" if "k \<notin> fst ` set left \<union> fst ` set right"
    proof -
      from that have "count_code k left = 0" "count_code k right = 0"
        by (simp_all add: count_code_zero)
      then have "length (rows_of k (comparison tolerance merged)) = 0"
        unfolding len by simp
      then show ?thesis by simp
    qed
    have one: "length (rows_of k (comparison tolerance merged)) = 1"
      if "distinct (map fst left)" "distinct (map fst right)" "k \<in> fst ` set left \<union> fst ` set right"
      using that unfolding len by (auto simp: count_code_distinct)
    show ?thesis using len ne none one by blast
  qed
  have sides: "(c_Material_Code r \<notin> fst ` set left \<longrightarrow> c_Total_PDF r = 0)
           \<and> (c_Material_Code r \<notin> fst ` set right \<longrightarrow> c_Total_EXCEL r = 0)"
    if "r \<in> set (comparison tolerance merged)" for r
    using rows_of_merged_sides [OF m that] by blast
  show ?thesis
    apply (rule exI [of _ merged])
    apply (intro conjI)
      apply (rule m)
     apply (rule allI, rule per_code)
    apply (rule ballI, erule sides)
    done
qed

theorem outer_join_rows_per_code_witness:
  "merge_outer [(''A1'', 110)] [(''A1'', 110), (''B2'', 7)]
      = Inr [(''A1'', Some 110, Some 110), (''B2'', None, Some 7)]
   \<and> length (rows_of ''A1'' (comparison 10 [(''A1'', Some 110, Some 110), (''B2'', None, Some 7)])) = 1
   \<and> length (rows_of ''B2'' (comparison 10 [(''A1'', Some 110, Some 110), (''B2'', None, Some 7)])) = 1
   \<and> list_all (\<lambda>r. c_Material_Code r \<notin> fst ` set [(''A1'', 110::real)] \<longrightarrow> c_Total_PDF r = 0)
        (comparison 10 [(''A1'', Some 110, Some 110), (''B2'', None, Some 7)])"
proof -
  define left where "left = [(''A1'', 110::real)]"
  define right where "right = [(''A1'', 110::real), (''B2'', 7)]"
  define ms where "ms = [(''A1'', Some (110::real), Some (110::real)), (''B2'', None, Some 7)]"
  have m: "merge_outer left right = Inr ms"
    unfolding left_def right_def ms_def by code_simp
  have ne: "left \<noteq> []" by (simp add: left_def)
  from outer_join_rows_per_code [OF ne, of right 10] obtain merged where
    mm: "merge_outer left right = Inr merged"
    and pk: "\<forall>k. length (rows_of k (comparison 10 merged)) =
               (if count_code k right = 0 then count_code k left
                else if count_code k left = 0 then count_code k right
                else count_code k left * count_code k right)
            \<and> (k \<in> fst ` set left \<union> fst ` set right \<longrightarrow> rows_of k (comparison 10 merged) \<noteq> [])
            \<and> (k \<notin> fst ` set left \<union> fst ` set right \<longrightarrow> rows_of k (comparison 10 merged) = [])
            \<and> (distinct (map fst left) \<and> distinct (map fst right) \<and> k \<in> fst ` set left \<union> fst ` set right
                 \<longrightarrow> length (rows_of k (comparison 10 merged)) = 1)"
    and sd: "\<forall>r \<in> set (comparison 10 merged).
           (c_Material_Code r \<notin> fst ` set left \<longrightarrow> c_Total_PDF r = 0)
           \<and> (c_Material_Code r \<notin> fst ` set right \<longrightarrow> c_Total_EXCEL r = 0)"
    by (elim exE conjE) (rule that; assumption)
  note pc = pk [rule_format, THEN conjunct1]
  from mm m have e: "merged = ms" by simp
  have a: "length (rows_of ''A1'' (comparison 10 ms)) = 1"
    using pc [of "''A1''"] unfolding e by (simp add: count_code_def left_def right_def)
  have b: "length (rows_of ''B2'' (comparison 10 ms)) = 1"
    using pc [of "''B2''"] unfolding e by (simp add: count_code_def left_def right_def)
  have c: "list_all (\<lambda>r. c_Material_Code r \<notin> fst ` set left \<longrightarrow> c_Total_PDF r = 0)
        (comparison 10 ms)"
    unfolding list_all_iff using sd unfolding e by blast
  show ?thesis
    using m a b c unfolding left_def right_def ms_def by - (intro conjI; assumption)
qed

text \<open>
  In every report, a code of the spreadsheet records that no document item carries has at
  least one comparison row; each such row has the document amount 0 and the total of a
  spreadsheet record of that code, and its status is Match exactly when that total is at
  most the tolerance.
\<close>

lemma missing_document_item_status:
  assumes "reconciliation tolerance sheet result = Inr rep"
    and "load_and_clean_excel sheet = Inr excel_df"
    and "k \<in> Material_Code ` set excel_df"
    and "k \<notin> fst ` set (fst (extract_pdf_data result (map Material_Code excel_df)))"
  shows "rows_of k (comp_df rep) \<noteq> []
     \<and> (\<forall>r \<in> set (rows_of k (comp_df rep)).
           c_Total_PDF r = 0
           \<and> (\<exists>e \<in> set excel_df. Material_Code e = k \<and> c_Total_EXCEL r = Total_EXCEL e)
           \<and> (c_Status r = Match \<longleftrightarrow> c_Total_EXCEL r \<le> tolerance))"
proof -
  let ?left = "fst (extract_pdf_data result (map Material_Code excel_df))"
  let ?right = "map (\<lambda>r. (Material_Code r, Total_EXCEL r)) excel_df"
  from assms(1) obtain xl merged where xl: "load_and_clean_excel sheet = Inr xl"
    and m0: "merge_outer (fst (extract_pdf_data result (map Material_Code xl)))
        (map (\<lambda>r. (Material_Code r, Total_EXCEL r)) xl) = Inr merged"
    and c: "comp_df rep = comparison tolerance merged"
    by (rule reconciliation_InrD)
  from xl assms(2) have "xl = excel_df" by simp
  with m0 have m: "merge_outer ?left ?right = Inr merged" by simp
  have kr: "k \<in> fst ` set ?right" using assms(3) by force
  have ne: "rows_of k (comp_df rep) \<noteq> []"
  proof -
    have "count_code k ?left \<noteq> 0 \<or> count_code k ?right \<noteq> 0"
      using kr by (simp add: count_code_zero)
    then have "length (merge_key_rows ?left ?right k) \<noteq> 0"
      unfolding length_merge_key_rows by auto
    moreover have ku: "k \<in> fst ` set ?left \<union> fst ` set ?right" using kr by blast
    have "length (rows_of k (comp_df rep)) = length (merge_key_rows ?left ?right k)"
      by (simp only: c rows_of_comparison length_comparison merged_rows_of_key [OF m] ku if_True)
    ultimately show ?thesis by auto
  qed
  have each: "c_Total_PDF r = 0
           \<and> (\<exists>e \<in> set excel_df. Material_Code e = k \<and> c_Total_EXCEL r = Total_EXCEL e)
           \<and> (c_Status r = Match \<longleftrightarrow> c_Total_EXCEL r \<le> tolerance)"
    if "r \<in> set (rows_of k (comp_df rep))" for r
  proof -
    from that have rin: "r \<in> set (comparison tolerance merged)" and rk: "c_Material_Code r = k"
      by (simp_all add: rows_of_def c)
    from comparison_row_D [OF rin] obtain x where x: "x \<in> set merged"
      "c_Material_Code r = fst x" "c_Total_PDF r = fillna0 (fst (snd x))"
      "c_Total_EXCEL r = fillna0 (snd (snd x))" by blast
    from merged_row_D [OF m x(1)] x(2) rk
    have xk: "x \<in> set (merge_key_rows ?left ?right k)" by simp
    have l: "fst (snd x) = None"
      using merge_key_rows_left [OF xk] assms(4) by (cases "fst (snd x)") force+
    obtain a where a: "snd (snd x) = Some a" "(k, a) \<in> set ?right"
      using merge_key_rows_right [OF xk] kr by (cases "snd (snd x)") auto
    from a(2) obtain e where e: "e \<in> set excel_df" "Material_Code e = k" "a = Total_EXCEL e"
      by auto
    have nn: "0 \<le> a" using load_totals_nonneg [OF assms(2) e(1)] e(3) by simp
    have pdf0: "c_Total_PDF r = 0" using x(3) l by (simp add: fillna0_def)
    have xa: "c_Total_EXCEL r = a" using x(4) a(1) by (simp add: fillna0_def)
    have "c_Status r = Match \<longleftrightarrow> \<bar>c_Total_PDF r - c_Total_EXCEL r\<bar> \<le> tolerance"
      by (rule comparison_status [OF rin])
    with pdf0 xa nn have "c_Status r = Match \<longleftrightarrow> c_Total_EXCEL r \<le> tolerance" by simp
    with pdf0 xa e show ?thesis by blast
  qed
  show ?thesis using ne each by blast
qed

lemma missing_document_item_status_example:
  "rows_of ''B2'' (comp_df example_report) \<noteq> []
   \<and> list_all (\<lambda>r. c_Total_PDF r = 0 \<and> (c_Status r = Match \<longleftrightarrow> c_Total_EXCEL r \<le> 10))
        (rows_of ''B2'' (comp_df example_report))"
proof -
  have a: "''B2'' \<in> Material_Code ` set
      [\<lparr>Material_Code = ''A1'', Qty_EXCEL = 5, Tax_EXCEL = 10.5, Total_EXCEL = 110\<rparr>,
       \<lparr>Material_Code = ''B2'', Qty_EXCEL = 1, Tax_EXCEL = 0, Total_EXCEL = 7\<rparr>]"
    by simp
  have b: "''B2'' \<notin> fst ` set (fst (extract_pdf_data example_result (map Material_Code
      [\<lparr>Material_Code = ''A1'', Qty_EXCEL = 5, Tax_EXCEL = 10.5, Total_EXCEL = 110\<rparr>,
       \<lparr>Material_Code = ''B2'', Qty_EXCEL = 1, Tax_EXCEL = 0, Total_EXCEL = 7\<rparr>])))"
    by code_simp
  from missing_document_item_status [OF example_run example_load a b]
  show ?thesis unfolding list_all_iff by blast
qed

subsection \<open>Runs in which no document item survives\<close>

text \<open>
  The frame of document items is \<^verbatim>\<open>pd.DataFrame(all_line_items)\<close>. When no item survives
  the filters it has no column \<^verbatim>\<open>'Material Code'\<close>, and the merge of line 137 raises
  \<^verbatim>\<open>KeyError\<close>: the run returns a report exactly when the sheet is normalised and at
  least one document item survives.
\<close>

lemma no_document_item_run_fails:
  assumes "load_and_clean_excel sheet = Inr excel_df"
    and "fst (extract_pdf_data result (map Material_Code excel_df)) = []"
  shows "reconciliation tolerance sheet result = Inl KeyError"
  using assms
  by (cases "extract_pdf_data result (map Material_Code excel_df)")
    (simp add: reconciliation_def Let_def merge_outer_def)

lemma surviving_item_run_returns:
  assumes "load_and_clean_excel sheet = Inr excel_df"
    and "fst (extract_pdf_data result (map Material_Code excel_df)) \<noteq> []"
  shows "\<exists>rep merged. reconciliation tolerance sheet result = Inr rep
     \<and> merge_outer (fst (extract_pdf_data result (map Material_Code excel_df)))
          (map (\<lambda>r. (Material_Code r, Total_EXCEL r)) excel_df) = Inr merged
     \<and> comp_df rep = comparison tolerance merged"
proof -
  from merge_outer_returns [OF assms(2)] obtain merged where
    m: "merge_outer (fst (extract_pdf_data result (map Material_Code excel_df)))
          (map (\<lambda>r. (Material_Code r, Total_EXCEL r)) excel_df) = Inr merged" by blast
  from merged_nonempty [OF m] have "comparison tolerance merged \<noteq> []"
    by (simp add: comparison_def)
  then have "\<exists>acc. overall_accuracy (comparison tolerance merged) = Inr acc"
    by (simp add: overall_accuracy_def)
  then obtain acc where a: "overall_accuracy (comparison tolerance merged) = Inr acc" by blast
  show ?thesis
    using assms(1) m a
    by (cases "extract_pdf_data result (map Material_Code excel_df)")
      (simp add: reconciliation_def Let_def)
qed

text \<open>
  Claim C1. The claim asks that the empty case, with no comparison row, gives a defined
  accuracy rather than a failure. On the empty input, a sheet with its header row and no
  record and a document with no line item, the run gives no accuracy: it stops with the
  \<^verbatim>\<open>KeyError\<close> of the merge. (The accuracy expression of line 148 has no guard for
  zero rows either, lemma \<open>accuracy_no_rows\<close>, but no run reaches it with zero rows, lemma
  \<open>report_rows_nonempty\<close>.)
\<close>

theorem empty_scenario_run_fails:
  "load_and_clean_excel header_only_sheet = Inr []
   \<and> fst (extract_pdf_data no_items_result []) = []
   \<and> reconciliation 10 header_only_sheet no_items_result = Inl KeyError"
  by code_simp

text \<open>
  Claim C10. The claim says that a code of the spreadsheet with no document item has a
  comparison row with the document amount 0, Match exactly when its total is at most the
  tolerance. It holds in every run that returns a report (lemma
  \<open>missing_document_item_status\<close>). It fails when no document item at all survives: the
  sheet below has the codes A1 and B2, B2 with the total 7 within the tolerance 10, the
  only item of the document is dropped by the cross-reference filter, and the run reports
  nothing but the \<^verbatim>\<open>KeyError\<close> of the merge.
\<close>

theorem missing_item_run_fails:
  "load_and_clean_excel example_sheet = Inr
     [\<lparr>Material_Code = ''A1'', Qty_EXCEL = 5, Tax_EXCEL = 10.5, Total_EXCEL = 110\<rparr>,
      \<lparr>Material_Code = ''B2'', Qty_EXCEL = 1, Tax_EXCEL = 0, Total_EXCEL = 7\<rparr>]
   \<and> fst (extract_pdf_data hsn_only_result [''A1'', ''B2'']) = []
   \<and> reconciliation 10 example_sheet hsn_only_result = Inl KeyError"
  by code_simp

end
